theory Spec2Isabelle
  imports Main "HOL-Library.Word"
begin

section \<open>The scheduler bridge of erlang-mesos\<close>

text \<open>
  A shallow embedding of \<^verbatim>\<open>c_src/utils.hpp\<close> and \<^verbatim>\<open>c_src/scheduler_c_api.cpp\<close>.
  Three libraries are used by the code and are not part of it: protobuf (the generated
  message classes of \<^verbatim>\<open>mesos.pb.h\<close>), the Mesos scheduler driver and the Erlang
  runtime (\<^verbatim>\<open>erl_nif.h\<close>). Protobuf is a parameter of every definition (a record of
  its four operations), the driver is modelled by the trace of the calls made into it
  together with an arbitrary function that chooses the status it reports, and the
  Erlang runtime by the trace of the messages handed to \<^verbatim>\<open>enif_send\<close>.
\<close>

subsection \<open>Data model\<close>

type_synonym byte = "8 word"

text \<open>An \<^verbatim>\<open>ErlNifBinary\<close> is a buffer \<^verbatim>\<open>data\<close> of \<^verbatim>\<open>size\<close> bytes. A pointer that
  may be \<^verbatim>\<open>NULL\<close> is an option.\<close>

type_synonym ErlNifBinary = "byte list"

type_synonym ErlNifPid = nat

text \<open>Every \<^verbatim>\<open>assert\<close> of the source is a branch that ends in \<open>AssertionFailed\<close>;
  \<open>UndefinedBehaviour\<close> marks a call that reads arguments which were never passed, or
  dereferences a null pointer.\<close>

datatype error = AssertionFailed | UndefinedBehaviour

text \<open>The protobuf classes the templates \<^verbatim>\<open>deserialize<T>\<close> and \<^verbatim>\<open>pb_obj_to_binary\<close>
  are instantiated with. The template argument becomes a value.\<close>

datatype pb_type =
    FrameworkInfo | Credential | OfferID | Offer_Operation | Filters | TaskID
  | ExecutorID | SlaveID | Request | TaskStatus | TaskInfo | Offer | MasterInfo
  | FrameworkID

text \<open>
  The protobuf library, for messages of type \<open>'m\<close>: \<open>ByteSize\<close> is \<^verbatim>\<open>obj.ByteSize()\<close>,
  \<open>Serialize\<close> the bytes \<^verbatim>\<open>obj.SerializeToArray\<close> produces, \<open>ParseFromArray\<close> the
  result of \<^verbatim>\<open>ret.ParseFromArray(data, size)\<close> (the flag it returns and the contents of
  \<^verbatim>\<open>ret\<close> afterwards: the message is cleared first, so the old contents do not matter),
  \<open>New\<close> a default-constructed message.
\<close>

record 'm protobuf =
  ByteSize :: "'m \<Rightarrow> nat"
  Serialize :: "'m \<Rightarrow> byte list"
  ParseFromArray :: "pb_type \<Rightarrow> byte list \<Rightarrow> bool \<times> 'm"
  New :: "pb_type \<Rightarrow> 'm"

text \<open>\<^verbatim>\<open>class CScheduler\<close>: the framework description and the controller's pid.\<close>

record 'm CScheduler =
  info :: 'm
  pid :: "ErlNifPid option"

text \<open>The methods of \<^verbatim>\<open>MesosSchedulerDriver\<close> the bridge calls, with their arguments.\<close>

datatype 'm driver_call =
    Driver_start
  | Driver_join
  | Driver_abort
  | Driver_stop bool
  | Driver_acceptOffers "'m list" "'m list" 'm
  | Driver_declineOffer 'm 'm
  | Driver_killTask 'm
  | Driver_reviveOffers
  | Driver_sendFrameworkMessage 'm 'm "byte list"
  | Driver_requestResources "'m list"
  | Driver_reconcileTasks "'m list"
  | Driver_launchTasks 'm "'m list" 'm

text \<open>A \<^verbatim>\<open>MesosSchedulerDriver\<close> object: the arguments of its constructor and the calls
  made into it so far, oldest first.\<close>

record 'm MesosSchedulerDriver =
  drv_scheduler :: "'m CScheduler"
  drv_framework :: 'm
  drv_master :: "byte list"
  drv_credential :: "'m option"
  drv_calls :: "'m driver_call list"

text \<open>\<^verbatim>\<open>SchedulerPtrPair\<close>: two pointers. The pointed-to objects are mutated in place by
  the source; the model returns the pair with the updated objects.\<close>

record 'm SchedulerPtrPair =
  driver :: "'m MesosSchedulerDriver option"
  scheduler :: "'m CScheduler option"

text \<open>
  Modelled from the spec: the status vocabulary of the native driver (not started,
  running, aborted, stopped), the enumeration \<^verbatim>\<open>mesos::Status\<close> of the Mesos headers,
  which are not in the repository; \<open>Status_code\<close> gives the enumeration's numeric values.
\<close>

datatype Status =
    Status_DRIVER_NOT_STARTED
  | Status_DRIVER_RUNNING
  | Status_DRIVER_ABORTED
  | Status_DRIVER_STOPPED

fun Status_code :: "Status \<Rightarrow> int" where
  "Status_code Status_DRIVER_NOT_STARTED = 1"
| "Status_code Status_DRIVER_RUNNING = 2"
| "Status_code Status_DRIVER_ABORTED = 3"
| "Status_code Status_DRIVER_STOPPED = 4"

text \<open>\<^verbatim>\<open>SchedulerDriverStatus\<close> is an integer type: the commands return the literal
  \<^verbatim>\<open>3\<close> as well as the driver's enumeration values.\<close>

type_synonym SchedulerDriverStatus = int

text \<open>\<^verbatim>\<open>#define DRIVER_ABORTED 3;\<close>\<close>

definition DRIVER_ABORTED :: SchedulerDriverStatus where
  "DRIVER_ABORTED = 3"

subsection \<open>Erlang terms\<close>

text \<open>The terms the bridge builds (\<^verbatim>\<open>ERL_NIF_TERM\<close>), by the \<^verbatim>\<open>enif_make_*\<close> function
  that builds them. The environments the terms are allocated in are not modelled.\<close>

datatype eterm =
    E_atom string
  | E_binary "byte list"
  | E_string "byte list"
  | E_int int
  | E_tuple "eterm list"

definition enif_make_atom :: "string \<Rightarrow> eterm" where
  "enif_make_atom name = E_atom name"

definition enif_make_binary :: "ErlNifBinary \<Rightarrow> eterm" where
  "enif_make_binary bin = E_binary bin"

text \<open>A \<^verbatim>\<open>const char*\<close> is modelled by the characters of the array it points to, without
  the zero byte that ends the array. \<^verbatim>\<open>enif_make_string\<close> reads up to the first zero
  byte.\<close>

definition enif_make_string :: "byte list \<Rightarrow> eterm" where
  "enif_make_string cs = E_string (takeWhile (\<lambda>c. c \<noteq> 0) cs)"

text \<open>\<^verbatim>\<open>std::string::c_str()\<close>: a pointer to the characters of the string.\<close>

definition c_str :: "byte list \<Rightarrow> byte list" where
  "c_str s = s"

text \<open>\<^verbatim>\<open>enif_make_int(env, int)\<close>\<close>

definition enif_make_int :: "32 word \<Rightarrow> eterm" where
  "enif_make_int i = E_int (sint i)"

text \<open>\<^verbatim>\<open>enif_make_tuple(env, cnt, ...)\<close> builds a tuple of the first \<open>cnt\<close> of the
  terms that follow; with fewer than \<open>cnt\<close> terms passed it reads arguments that do
  not exist. \<^verbatim>\<open>enif_make_tuple2\<close>, \<^verbatim>\<open>3\<close> and \<^verbatim>\<open>4\<close> are that call with the count
  filled in.\<close>

definition enif_make_tuple :: "nat \<Rightarrow> eterm list \<Rightarrow> error + eterm" where
  "enif_make_tuple cnt elems =
     (if length elems < cnt then Inl UndefinedBehaviour
      else Inr (E_tuple (take cnt elems)))"

definition enif_make_tuple2 :: "eterm \<Rightarrow> eterm \<Rightarrow> error + eterm" where
  "enif_make_tuple2 e1 e2 = enif_make_tuple 2 [e1, e2]"

definition enif_make_tuple3 :: "eterm \<Rightarrow> eterm \<Rightarrow> eterm \<Rightarrow> error + eterm" where
  "enif_make_tuple3 e1 e2 e3 = enif_make_tuple 3 [e1, e2, e3]"

definition enif_make_tuple4 :: "eterm \<Rightarrow> eterm \<Rightarrow> eterm \<Rightarrow> eterm \<Rightarrow> error + eterm" where
  "enif_make_tuple4 e1 e2 e3 e4 = enif_make_tuple 4 [e1, e2, e3, e4]"

text \<open>\<^verbatim>\<open>enif_send(NULL, pid, env, message)\<close>: the trace of the messages handed to the
  runtime, oldest first. The callbacks ignore what \<^verbatim>\<open>enif_send\<close> returns.\<close>

type_synonym outbox = "(ErlNifPid \<times> eterm) list"

definition enif_send :: "ErlNifPid \<Rightarrow> eterm \<Rightarrow> outbox \<Rightarrow> outbox" where
  "enif_send to_pid message out = out @ [(to_pid, message)]"

subsection \<open>utils.hpp\<close>

text \<open>\<^verbatim>\<open>enif_alloc_binary(n, &res)\<close> gives a buffer of \<open>n\<close> bytes of unspecified content,
  taken as zeros here; \<open>pb_obj_to_binary\<close> overwrites them.\<close>

definition enif_alloc_binary :: "nat \<Rightarrow> ErlNifBinary" where
  "enif_alloc_binary n = replicate n 0"

text \<open>\<^verbatim>\<open>obj.SerializeToArray(data, size)\<close>: fails, leaving the buffer alone, when the
  buffer is smaller than \<^verbatim>\<open>ByteSize()\<close>; otherwise writes the serialization at the start
  of the buffer. The size of the buffer never changes.\<close>

definition SerializeToArray :: "'m protobuf \<Rightarrow> 'm \<Rightarrow> byte list \<Rightarrow> bool \<times> byte list" where
  "SerializeToArray lib obj buf =
     (if length buf < ByteSize lib obj then (False, buf)
      else (True, take (length buf)
                    (Serialize lib obj @ drop (length (Serialize lib obj)) buf)))"

definition pb_obj_to_binary :: "'m protobuf \<Rightarrow> 'm \<Rightarrow> eterm" where
  "pb_obj_to_binary lib obj =
     (let res = enif_alloc_binary (ByteSize lib obj);
          res' = snd (SerializeToArray lib obj res)
      in enif_make_binary res')"

text \<open>\<^verbatim>\<open>deserialize(T& ret, void* data, size_t size)\<close>; the line printed on failure is
  not modelled.\<close>

definition deserialize_array :: "'m protobuf \<Rightarrow> pb_type \<Rightarrow> 'm \<Rightarrow> byte list \<Rightarrow> bool \<times> 'm" where
  "deserialize_array lib T ret data =
     (let r = ParseFromArray lib T data
      in if \<not> fst r then (False, snd r) else (True, snd r))"

text \<open>\<^verbatim>\<open>deserialize(T& ret, ErlNifBinary* obj)\<close>\<close>

definition deserialize :: "'m protobuf \<Rightarrow> pb_type \<Rightarrow> 'm \<Rightarrow> ErlNifBinary option \<Rightarrow> bool \<times> 'm" where
  "deserialize lib T ret obj =
     (case obj of
        None \<Rightarrow> (False, ret)
      | Some b \<Rightarrow> deserialize_array lib T ret b)"

text \<open>
  Modelled from the spec: the overload \<^verbatim>\<open>deserialize(vector<T>& ret, BinaryNifArray* obj)\<close>
  is defined in a header of the repository that is not among the sources. The spec:
  the sequence-decoding variant accepts a list of byte sequences and decodes each
  independently, failing the whole operation if any single element fails (no partial
  results returned). A null array fails, as a null binary does.
\<close>

definition deserialize_vector ::
  "'m protobuf \<Rightarrow> pb_type \<Rightarrow> 'm list \<Rightarrow> ErlNifBinary list option \<Rightarrow> bool \<times> 'm list" where
  "deserialize_vector lib T ret obj =
     (case obj of
        None \<Rightarrow> (False, ret)
      | Some bs \<Rightarrow>
          (let rs = map (\<lambda>b. deserialize lib T (New lib T) (Some b)) bs
           in if list_all fst rs then (True, ret @ map snd rs) else (False, ret)))"

text \<open>Constructing a \<^verbatim>\<open>std::string\<close> from a \<^verbatim>\<open>const char*\<close> copies the characters
  before the first zero byte.\<close>

definition std_string :: "byte list \<Rightarrow> byte list" where
  "std_string cs = takeWhile (\<lambda>c. c \<noteq> 0) cs"

subsection \<open>The native driver\<close>

text \<open>A call of a driver method: the driver reports a status, chosen by \<open>reply\<close> from
  the driver's construction and history, and the call joins the history.\<close>

type_synonym 'm driver_reply = "'m MesosSchedulerDriver \<Rightarrow> 'm driver_call \<Rightarrow> Status"

definition driver_invoke ::
  "'m driver_reply \<Rightarrow> 'm SchedulerPtrPair \<Rightarrow> 'm driver_call
     \<Rightarrow> error + (SchedulerDriverStatus \<times> 'm SchedulerPtrPair)" where
  "driver_invoke reply state c =
     (case driver state of
        None \<Rightarrow> Inl UndefinedBehaviour
      | Some d \<Rightarrow>
          Inr (Status_code (reply d c),
               state\<lparr>driver := Some (d\<lparr>drv_calls := drv_calls d @ [c]\<rparr>)\<rparr>))"

subsection \<open>scheduler\_c\_api.cpp: life cycle\<close>

definition scheduler_init ::
  "'m protobuf \<Rightarrow> ErlNifPid option \<Rightarrow> ErlNifBinary option \<Rightarrow> byte list option \<Rightarrow> bool
     \<Rightarrow> ErlNifBinary option \<Rightarrow> error + 'm SchedulerPtrPair" where
  "scheduler_init lib pid' info' master credentialssupplied credentials =
     (if info' = None then Inl AssertionFailed
      else case master of
        None \<Rightarrow> Inl AssertionFailed
      | Some master_chars \<Rightarrow>
         (let scheduler0 = \<lparr>info = New lib FrameworkInfo, pid = pid'\<rparr>;
              scheduler1 = scheduler0\<lparr>info :=
                 snd (deserialize lib FrameworkInfo (info scheduler0) info')\<rparr>;
              drv =
                (if credentialssupplied
                 then (let credentials_pb =
                             snd (deserialize lib Credential (New lib Credential) credentials)
                       in \<lparr>drv_scheduler = scheduler1, drv_framework = info scheduler1,
                           drv_master = std_string master_chars,
                           drv_credential = Some credentials_pb, drv_calls = []\<rparr>)
                 else \<lparr>drv_scheduler = scheduler1, drv_framework = info scheduler1,
                       drv_master = std_string master_chars,
                       drv_credential = None, drv_calls = []\<rparr>)
          in Inr \<lparr>driver = Some drv, scheduler = Some scheduler1\<rparr>))"

definition scheduler_start ::
  "'m driver_reply \<Rightarrow> 'm SchedulerPtrPair \<Rightarrow> error + (SchedulerDriverStatus \<times> 'm SchedulerPtrPair)" where
  "scheduler_start reply state =
     (if driver state = None then Inl AssertionFailed
      else driver_invoke reply state Driver_start)"

definition scheduler_join ::
  "'m driver_reply \<Rightarrow> 'm SchedulerPtrPair \<Rightarrow> error + (SchedulerDriverStatus \<times> 'm SchedulerPtrPair)" where
  "scheduler_join reply state =
     (if driver state = None then Inl AssertionFailed
      else driver_invoke reply state Driver_join)"

definition scheduler_abort ::
  "'m driver_reply \<Rightarrow> 'm SchedulerPtrPair \<Rightarrow> error + (SchedulerDriverStatus \<times> 'm SchedulerPtrPair)" where
  "scheduler_abort reply state =
     (if driver state = None then Inl AssertionFailed
      else driver_invoke reply state Driver_abort)"

definition scheduler_stop ::
  "'m driver_reply \<Rightarrow> 'm SchedulerPtrPair \<Rightarrow> bool
     \<Rightarrow> error + (SchedulerDriverStatus \<times> 'm SchedulerPtrPair)" where
  "scheduler_stop reply state failover =
     (if driver state = None then Inl AssertionFailed
      else if failover then driver_invoke reply state (Driver_stop True)
      else driver_invoke reply state (Driver_stop False))"

subsection \<open>scheduler\_c\_api.cpp: commands\<close>

definition scheduler_acceptOffers ::
  "'m protobuf \<Rightarrow> 'm driver_reply \<Rightarrow> 'm SchedulerPtrPair \<Rightarrow> ErlNifBinary list option
     \<Rightarrow> ErlNifBinary list option \<Rightarrow> ErlNifBinary option
     \<Rightarrow> error + (SchedulerDriverStatus \<times> 'm SchedulerPtrPair)" where
  "scheduler_acceptOffers lib reply state offerIds operations filters =
     (if driver state = None then Inl AssertionFailed
      else if offerIds = None then Inl AssertionFailed
      else if operations = None then Inl AssertionFailed
      else
        let (ok1, offerIds_v) = deserialize_vector lib OfferID [] offerIds in
        if \<not> ok1 then Inr (DRIVER_ABORTED, state)
        else
          let (ok2, operations_v) = deserialize_vector lib Offer_Operation [] operations in
          if \<not> ok2 then Inr (DRIVER_ABORTED, state)
          else
            let (ok3, filter_pb) = deserialize lib Filters (New lib Filters) filters in
            if \<not> ok3 then Inr (DRIVER_ABORTED, state)
            else driver_invoke reply state
                   (Driver_acceptOffers offerIds_v operations_v filter_pb))"

definition scheduler_declineOffer ::
  "'m protobuf \<Rightarrow> 'm driver_reply \<Rightarrow> 'm SchedulerPtrPair \<Rightarrow> ErlNifBinary option
     \<Rightarrow> ErlNifBinary option \<Rightarrow> error + (SchedulerDriverStatus \<times> 'm SchedulerPtrPair)" where
  "scheduler_declineOffer lib reply state offerId filters =
     (if driver state = None then Inl AssertionFailed
      else if offerId = None then Inl AssertionFailed
      else
        let (ok1, offerid_pb) = deserialize lib OfferID (New lib OfferID) offerId in
        if \<not> ok1 then Inr (DRIVER_ABORTED, state)
        else
          let (ok2, filter_pb) = deserialize lib Filters (New lib Filters) filters in
          if \<not> ok2 then Inr (DRIVER_ABORTED, state)
          else driver_invoke reply state (Driver_declineOffer offerid_pb filter_pb))"

definition scheduler_killTask ::
  "'m protobuf \<Rightarrow> 'm driver_reply \<Rightarrow> 'm SchedulerPtrPair \<Rightarrow> ErlNifBinary option
     \<Rightarrow> error + (SchedulerDriverStatus \<times> 'm SchedulerPtrPair)" where
  "scheduler_killTask lib reply state taskId =
     (if driver state = None then Inl AssertionFailed
      else if taskId = None then Inl AssertionFailed
      else
        let (ok, taskid_pb) = deserialize lib TaskID (New lib TaskID) taskId in
        if \<not> ok then Inr (DRIVER_ABORTED, state)
        else driver_invoke reply state (Driver_killTask taskid_pb))"

definition scheduler_reviveOffers ::
  "'m driver_reply \<Rightarrow> 'm SchedulerPtrPair \<Rightarrow> error + (SchedulerDriverStatus \<times> 'm SchedulerPtrPair)" where
  "scheduler_reviveOffers reply state =
     (if driver state = None then Inl AssertionFailed
      else driver_invoke reply state Driver_reviveOffers)"

text \<open>\<^verbatim>\<open>data\<close> is a \<^verbatim>\<open>const char*\<close>: the characters found at the pointer. The driver's
  method takes a \<^verbatim>\<open>const std::string&\<close>, so a string is constructed from it.\<close>

definition scheduler_sendFrameworkMessage ::
  "'m protobuf \<Rightarrow> 'm driver_reply \<Rightarrow> 'm SchedulerPtrPair \<Rightarrow> ErlNifBinary option
     \<Rightarrow> ErlNifBinary option \<Rightarrow> byte list option
     \<Rightarrow> error + (SchedulerDriverStatus \<times> 'm SchedulerPtrPair)" where
  "scheduler_sendFrameworkMessage lib reply state executorId slaveId data =
     (if driver state = None then Inl AssertionFailed
      else if executorId = None then Inl AssertionFailed
      else if slaveId = None then Inl AssertionFailed
      else case data of
        None \<Rightarrow> Inl AssertionFailed
      | Some data_chars \<Rightarrow>
         (let (ok1, executorid_pb) = deserialize lib ExecutorID (New lib ExecutorID) executorId in
          if \<not> ok1 then Inr (DRIVER_ABORTED, state)
          else
            let (ok2, slaveid_pb) = deserialize lib SlaveID (New lib SlaveID) slaveId in
            if \<not> ok2 then Inr (DRIVER_ABORTED, state)
            else driver_invoke reply state
                   (Driver_sendFrameworkMessage executorid_pb slaveid_pb
                      (std_string data_chars))))"

definition scheduler_requestResources ::
  "'m protobuf \<Rightarrow> 'm driver_reply \<Rightarrow> 'm SchedulerPtrPair \<Rightarrow> ErlNifBinary list option
     \<Rightarrow> error + (SchedulerDriverStatus \<times> 'm SchedulerPtrPair)" where
  "scheduler_requestResources lib reply state requests =
     (if driver state = None then Inl AssertionFailed
      else if requests = None then Inl AssertionFailed
      else
        let (ok, requests_v) = deserialize_vector lib Request [] requests in
        if \<not> ok then Inr (DRIVER_ABORTED, state)
        else driver_invoke reply state (Driver_requestResources requests_v))"

definition scheduler_reconcileTasks ::
  "'m protobuf \<Rightarrow> 'm driver_reply \<Rightarrow> 'm SchedulerPtrPair \<Rightarrow> ErlNifBinary list option
     \<Rightarrow> error + (SchedulerDriverStatus \<times> 'm SchedulerPtrPair)" where
  "scheduler_reconcileTasks lib reply state taskStatus =
     (if driver state = None then Inl AssertionFailed
      else if taskStatus = None then Inl AssertionFailed
      else
        let (ok, taskStatus_v) = deserialize_vector lib TaskStatus [] taskStatus in
        if \<not> ok then Inr (DRIVER_ABORTED, state)
        else driver_invoke reply state (Driver_reconcileTasks taskStatus_v))"

definition scheduler_launchTasks ::
  "'m protobuf \<Rightarrow> 'm driver_reply \<Rightarrow> 'm SchedulerPtrPair \<Rightarrow> ErlNifBinary option
     \<Rightarrow> ErlNifBinary list option \<Rightarrow> ErlNifBinary option
     \<Rightarrow> error + (SchedulerDriverStatus \<times> 'm SchedulerPtrPair)" where
  "scheduler_launchTasks lib reply state offerId taskInfos filters =
     (if driver state = None then Inl AssertionFailed
      else if offerId = None then Inl AssertionFailed
      else if taskInfos = None then Inl AssertionFailed
      else
        let (ok1, offerid_pb) = deserialize lib OfferID (New lib OfferID) offerId in
        if \<not> ok1 then Inr (DRIVER_ABORTED, state)
        else
          let (ok2, taskInfo_v) = deserialize_vector lib TaskInfo [] taskInfos in
          if \<not> ok2 then Inr (DRIVER_ABORTED, state)
          else
            let (ok3, filter_pb) = deserialize lib Filters (New lib Filters) filters in
            if \<not> ok3 then Inr (DRIVER_ABORTED, state)
            else driver_invoke reply state
                   (Driver_launchTasks offerid_pb taskInfo_v filter_pb))"

subsection \<open>scheduler\_c\_api.cpp: callbacks\<close>

definition CScheduler_registered ::
  "'m protobuf \<Rightarrow> 'm CScheduler \<Rightarrow> 'm \<Rightarrow> 'm \<Rightarrow> outbox \<Rightarrow> error + outbox" where
  "CScheduler_registered lib this frameworkId masterInfo out =
     (case pid this of
        None \<Rightarrow> Inl AssertionFailed
      | Some p \<Rightarrow>
         (let framework_pb = pb_obj_to_binary lib frameworkId;
              masterInfo_pb = pb_obj_to_binary lib masterInfo
          in case enif_make_tuple3 (enif_make_atom ''registered'') framework_pb masterInfo_pb of
               Inl e \<Rightarrow> Inl e
             | Inr message \<Rightarrow> Inr (enif_send p message out)))"

definition CScheduler_reregistered ::
  "'m protobuf \<Rightarrow> 'm CScheduler \<Rightarrow> 'm \<Rightarrow> outbox \<Rightarrow> error + outbox" where
  "CScheduler_reregistered lib this masterInfo out =
     (case pid this of
        None \<Rightarrow> Inl AssertionFailed
      | Some p \<Rightarrow>
         (let masterInfo_pb = pb_obj_to_binary lib masterInfo
          in case enif_make_tuple2 (enif_make_atom ''reregistered'') masterInfo_pb of
               Inl e \<Rightarrow> Inl e
             | Inr message \<Rightarrow> Inr (enif_send p message out)))"

text \<open>
  \<^verbatim>\<open>enif_make_tuple(env, enif_make_atom(env, "disconnected"))\<close>: the call without a
  count in its name, so the atom's handle arrives as the count and no element follows.
  \<open>handle\<close> gives the number a term's handle converts to; it is fixed by the Erlang
  runtime.
\<close>

definition CScheduler_disconnected ::
  "(eterm \<Rightarrow> nat) \<Rightarrow> 'm CScheduler \<Rightarrow> outbox \<Rightarrow> error + outbox" where
  "CScheduler_disconnected handle this out =
     (case pid this of
        None \<Rightarrow> Inl AssertionFailed
      | Some p \<Rightarrow>
         (case enif_make_tuple (handle (enif_make_atom ''disconnected'')) [] of
            Inl e \<Rightarrow> Inl e
          | Inr message \<Rightarrow> Inr (enif_send p message out)))"

definition CScheduler_offerRescinded ::
  "'m protobuf \<Rightarrow> 'm CScheduler \<Rightarrow> 'm \<Rightarrow> outbox \<Rightarrow> error + outbox" where
  "CScheduler_offerRescinded lib this offerId out =
     (case pid this of
        None \<Rightarrow> Inl AssertionFailed
      | Some p \<Rightarrow>
         (case enif_make_tuple2 (enif_make_atom ''offerRescinded'')
                 (pb_obj_to_binary lib offerId) of
            Inl e \<Rightarrow> Inl e
          | Inr message \<Rightarrow> Inr (enif_send p message out)))"

definition CScheduler_statusUpdate ::
  "'m protobuf \<Rightarrow> 'm CScheduler \<Rightarrow> 'm \<Rightarrow> outbox \<Rightarrow> error + outbox" where
  "CScheduler_statusUpdate lib this status out =
     (case pid this of
        None \<Rightarrow> Inl AssertionFailed
      | Some p \<Rightarrow>
         (case enif_make_tuple2 (enif_make_atom ''statusUpdate'')
                 (pb_obj_to_binary lib status) of
            Inl e \<Rightarrow> Inl e
          | Inr message \<Rightarrow> Inr (enif_send p message out)))"

definition CScheduler_frameworkMessage ::
  "'m protobuf \<Rightarrow> 'm CScheduler \<Rightarrow> 'm \<Rightarrow> 'm \<Rightarrow> byte list \<Rightarrow> outbox \<Rightarrow> error + outbox" where
  "CScheduler_frameworkMessage lib this executorId slaveId data out =
     (case pid this of
        None \<Rightarrow> Inl AssertionFailed
      | Some p \<Rightarrow>
         (case enif_make_tuple4 (enif_make_atom ''frameworkMessage'')
                 (pb_obj_to_binary lib executorId)
                 (pb_obj_to_binary lib slaveId)
                 (enif_make_string (c_str data)) of
            Inl e \<Rightarrow> Inl e
          | Inr message \<Rightarrow> Inr (enif_send p message out)))"

definition CScheduler_slaveLost ::
  "'m protobuf \<Rightarrow> 'm CScheduler \<Rightarrow> 'm \<Rightarrow> outbox \<Rightarrow> error + outbox" where
  "CScheduler_slaveLost lib this slaveId out =
     (case pid this of
        None \<Rightarrow> Inl AssertionFailed
      | Some p \<Rightarrow>
         (case enif_make_tuple2 (enif_make_atom ''slaveLost'')
                 (pb_obj_to_binary lib slaveId) of
            Inl e \<Rightarrow> Inl e
          | Inr message \<Rightarrow> Inr (enif_send p message out)))"

definition CScheduler_executorLost ::
  "'m protobuf \<Rightarrow> 'm CScheduler \<Rightarrow> 'm \<Rightarrow> 'm \<Rightarrow> 32 word \<Rightarrow> outbox \<Rightarrow> error + outbox" where
  "CScheduler_executorLost lib this executorId slaveId status out =
     (case pid this of
        None \<Rightarrow> Inl AssertionFailed
      | Some p \<Rightarrow>
         (case enif_make_tuple4 (enif_make_atom ''executorLost'')
                 (pb_obj_to_binary lib executorId)
                 (pb_obj_to_binary lib slaveId)
                 (enif_make_int status) of
            Inl e \<Rightarrow> Inl e
          | Inr message \<Rightarrow> Inr (enif_send p message out)))"

definition CScheduler_error ::
  "'m CScheduler \<Rightarrow> byte list \<Rightarrow> outbox \<Rightarrow> error + outbox" where
  "CScheduler_error this errormessage out =
     (case pid this of
        None \<Rightarrow> Inl AssertionFailed
      | Some p \<Rightarrow>
         (case enif_make_tuple2 (enif_make_atom ''error'')
                 (enif_make_string (c_str errormessage)) of
            Inl e \<Rightarrow> Inl e
          | Inr message \<Rightarrow> Inr (enif_send p message out)))"

text \<open>
  The loop of \<^verbatim>\<open>resourceOffers\<close>. The counter \<^verbatim>\<open>i\<close> is an \<^verbatim>\<open>unsigned int\<close> and is
  compared with \<^verbatim>\<open>offers.size()\<close>; \<open>i + 1\<close> wraps around at \<open>2 ^ 32\<close>, so the loop is
  a partial function: \<open>None\<close> is a loop that does not end.
\<close>

partial_function (option) resourceOffers_loop ::
  "'m protobuf \<Rightarrow> ErlNifPid \<Rightarrow> 'm list \<Rightarrow> 32 word \<Rightarrow> outbox \<Rightarrow> (error + outbox) option" where
  "resourceOffers_loop lib p offers i out =
     (if unat i < length offers
      then (let offer = offers ! unat i
            in case enif_make_tuple2 (enif_make_atom ''resourceOffers'')
                      (pb_obj_to_binary lib offer) of
                 Inl e \<Rightarrow> Some (Inl e)
               | Inr message \<Rightarrow>
                   resourceOffers_loop lib p offers (i + 1) (enif_send p message out))
      else Some (Inr out))"

definition CScheduler_resourceOffers ::
  "'m protobuf \<Rightarrow> 'm CScheduler \<Rightarrow> 'm list \<Rightarrow> outbox \<Rightarrow> (error + outbox) option" where
  "CScheduler_resourceOffers lib this offers out =
     (case pid this of
        None \<Rightarrow> Some (Inl AssertionFailed)
      | Some p \<Rightarrow> resourceOffers_loop lib p offers 0 out)"

subsection \<open>scheduler\_c\_api.cpp: statusUpdate and the answer of the runtime\<close>

text \<open>
  \<^verbatim>\<open>enif_send\<close> returns a flag: true when the message was sent, false when the send
  failed (the receiving process is gone). \<open>sent\<close> is that answer of the runtime, and
  the list is the mailbox of the receiver: a message joins it only when the send
  succeeds.
\<close>

definition enif_send_result :: "bool \<Rightarrow> ErlNifPid \<Rightarrow> eterm \<Rightarrow> outbox \<Rightarrow> bool \<times> outbox" where
  "enif_send_result sent to_pid message mailbox =
     (if sent then (True, mailbox @ [(to_pid, message)]) else (False, mailbox))"

text \<open>
  \<^verbatim>\<open>CScheduler::statusUpdate\<close> over the receiver's mailbox. The call
  \<^verbatim>\<open>enif_send(NULL, this->pid, env, message);\<close> is a statement of its own: the flag
  is dropped and the callback returns in the same way whatever it was.
\<close>

definition CScheduler_statusUpdate_result ::
  "bool \<Rightarrow> 'm protobuf \<Rightarrow> 'm CScheduler \<Rightarrow> 'm \<Rightarrow> outbox \<Rightarrow> error + outbox" where
  "CScheduler_statusUpdate_result sent lib this status mailbox =
     (case pid this of
        None \<Rightarrow> Inl AssertionFailed
      | Some p \<Rightarrow>
         (case enif_make_tuple2 (enif_make_atom ''statusUpdate'')
                 (pb_obj_to_binary lib status) of
            Inl e \<Rightarrow> Inl e
          | Inr message \<Rightarrow>
              (let (flag, mailbox') = enif_send_result sent p message mailbox
               in Inr mailbox')))"

subsection \<open>The contracts of the spec\<close>

text \<open>\<open>decode(bytes) -> object | DecodeFailure\<close>, read off \<open>deserialize\<close>.\<close>

definition decode :: "'m protobuf \<Rightarrow> pb_type \<Rightarrow> ErlNifBinary option \<Rightarrow> 'm option" where
  "decode lib T obj =
     (let (ok, m) = deserialize lib T (New lib T) obj in if ok then Some m else None)"

text \<open>Decoding a sequence: every element on its own, all or nothing.\<close>

definition decode_sequence ::
  "'m protobuf \<Rightarrow> pb_type \<Rightarrow> ErlNifBinary list option \<Rightarrow> 'm list option" where
  "decode_sequence lib T objs =
     (case objs of
        None \<Rightarrow> None
      | Some bs \<Rightarrow> those (map (\<lambda>b. decode lib T (Some b)) bs))"

text \<open>
  The uniform contract of a command, in the words of the spec: when some argument fails
  to decode (\<open>None\<close>) the rejection status is returned and the driver is left as it was,
  no call recorded; otherwise the one call \<open>c\<close> is made into the driver with the decoded
  arguments and the status the driver reports is returned.
\<close>

definition command_contract ::
  "'m driver_reply \<Rightarrow> 'm MesosSchedulerDriver \<Rightarrow> 'm CScheduler option
     \<Rightarrow> 'm driver_call option \<Rightarrow> error + (SchedulerDriverStatus \<times> 'm SchedulerPtrPair)" where
  "command_contract reply d s decoded =
     (case decoded of
        None \<Rightarrow> Inr (DRIVER_ABORTED, \<lparr>driver = Some d, scheduler = s\<rparr>)
      | Some c \<Rightarrow>
          Inr (Status_code (reply d c),
               \<lparr>driver = Some (d\<lparr>drv_calls := drv_calls d @ [c]\<rparr>), scheduler = s\<rparr>))"

subsection \<open>A concrete serializer for sample runs\<close>

text \<open>
  A message is a byte string; its wire form is the byte 10 followed by the string, and
  parsing fails on an empty input and on any other first byte.
\<close>

definition sample_lib :: "(byte list) protobuf" where
  "sample_lib =
     \<lparr>ByteSize = (\<lambda>m. length m + 1),
      Serialize = (\<lambda>m. 10 # m),
      ParseFromArray = (\<lambda>T bs. case bs of [] \<Rightarrow> (False, []) | t # rest \<Rightarrow> (t = 10, rest)),
      New = (\<lambda>T. [])\<rparr>"

definition sample_driver :: "(byte list) MesosSchedulerDriver" where
  "sample_driver =
     \<lparr>drv_scheduler = \<lparr>info = [1], pid = Some 7\<rparr>, drv_framework = [1],
      drv_master = [], drv_credential = None, drv_calls = []\<rparr>"

definition sample_state :: "(byte list) SchedulerPtrPair" where
  "sample_state = \<lparr>driver = Some sample_driver, scheduler = Some \<lparr>info = [1], pid = Some 7\<rparr>\<rparr>"

definition sample_reply :: "(byte list) driver_reply" where
  "sample_reply d c = Status_DRIVER_RUNNING"

section \<open>Properties\<close>

subsection \<open>Decoding\<close>

lemma deserialize_Some:
  "deserialize lib T ret (Some b) = ParseFromArray lib T b"
  by (simp add: deserialize_def deserialize_array_def Let_def prod_eq_iff)

lemma deserialize_None: "deserialize lib T ret None = (False, ret)"
  by (simp add: deserialize_def)

lemma decode_Some:
  "decode lib T (Some b) =
     (if fst (ParseFromArray lib T b) then Some (snd (ParseFromArray lib T b)) else None)"
  by (simp add: decode_def deserialize_Some split_def)

lemma decode_None: "decode lib T None = None"
  by (simp add: decode_def deserialize_def)

lemma those_map_decode:
  "those (map (\<lambda>b. decode lib T (Some b)) bs) =
     (if list_all (\<lambda>b. fst (ParseFromArray lib T b)) bs
      then Some (map (\<lambda>b. snd (ParseFromArray lib T b)) bs) else None)"
  by (induction bs) (simp_all add: decode_Some)

lemma deserialize_vector_decode:
  "deserialize_vector lib T [] (Some bs) =
     (case decode_sequence lib T (Some bs) of None \<Rightarrow> (False, []) | Some ms \<Rightarrow> (True, ms))"
  by (simp add: deserialize_vector_def decode_sequence_def those_map_decode deserialize_Some
        list_all_iff Let_def comp_def)

lemma killTask_contract:
  "scheduler_killTask lib reply \<lparr>driver = Some d, scheduler = s\<rparr> (Some taskId) =
     command_contract reply d s (map_option Driver_killTask (decode lib TaskID (Some taskId)))"
  by (simp add: scheduler_killTask_def command_contract_def driver_invoke_def
        decode_def split_def Let_def split: option.splits)

lemma declineOffer_contract:
  "scheduler_declineOffer lib reply \<lparr>driver = Some d, scheduler = s\<rparr> (Some offerId) filters =
     command_contract reply d s
       (Option.bind (decode lib OfferID (Some offerId)) (\<lambda>offerid_pb.
        Option.bind (decode lib Filters filters) (\<lambda>filter_pb.
        Some (Driver_declineOffer offerid_pb filter_pb))))"
  by (simp add: scheduler_declineOffer_def command_contract_def driver_invoke_def
        decode_def split_def Let_def
        split: option.splits)

lemma sendFrameworkMessage_contract:
  "scheduler_sendFrameworkMessage lib reply \<lparr>driver = Some d, scheduler = s\<rparr>
       (Some executorId) (Some slaveId) (Some data) =
     command_contract reply d s
       (Option.bind (decode lib ExecutorID (Some executorId)) (\<lambda>executorid_pb.
        Option.bind (decode lib SlaveID (Some slaveId)) (\<lambda>slaveid_pb.
        Some (Driver_sendFrameworkMessage executorid_pb slaveid_pb (std_string data)))))"
  by (simp add: scheduler_sendFrameworkMessage_def command_contract_def driver_invoke_def
        decode_def split_def Let_def
        split: option.splits)

lemma requestResources_contract:
  "scheduler_requestResources lib reply \<lparr>driver = Some d, scheduler = s\<rparr> (Some requests) =
     command_contract reply d s
       (map_option Driver_requestResources (decode_sequence lib Request (Some requests)))"
  by (simp add: scheduler_requestResources_def command_contract_def driver_invoke_def
        deserialize_vector_decode split: option.splits)

lemma reconcileTasks_contract:
  "scheduler_reconcileTasks lib reply \<lparr>driver = Some d, scheduler = s\<rparr> (Some taskStatus) =
     command_contract reply d s
       (map_option Driver_reconcileTasks (decode_sequence lib TaskStatus (Some taskStatus)))"
  by (simp add: scheduler_reconcileTasks_def command_contract_def driver_invoke_def
        deserialize_vector_decode split: option.splits)

lemma acceptOffers_contract:
  "scheduler_acceptOffers lib reply \<lparr>driver = Some d, scheduler = s\<rparr>
       (Some offerIds) (Some operations) filters =
     command_contract reply d s
       (Option.bind (decode_sequence lib OfferID (Some offerIds)) (\<lambda>offerIds_v.
        Option.bind (decode_sequence lib Offer_Operation (Some operations)) (\<lambda>operations_v.
        Option.bind (decode lib Filters filters) (\<lambda>filter_pb.
        Some (Driver_acceptOffers offerIds_v operations_v filter_pb)))))"
  by (simp add: scheduler_acceptOffers_def command_contract_def driver_invoke_def
        deserialize_vector_decode decode_def split_def Let_def
        split: option.splits)

lemma launchTasks_contract:
  "scheduler_launchTasks lib reply \<lparr>driver = Some d, scheduler = s\<rparr>
       (Some offerId) (Some taskInfos) filters =
     command_contract reply d s
       (Option.bind (decode lib OfferID (Some offerId)) (\<lambda>offerid_pb.
        Option.bind (decode_sequence lib TaskInfo (Some taskInfos)) (\<lambda>taskInfo_v.
        Option.bind (decode lib Filters filters) (\<lambda>filter_pb.
        Some (Driver_launchTasks offerid_pb taskInfo_v filter_pb)))))"
  by (simp add: scheduler_launchTasks_def command_contract_def driver_invoke_def
        deserialize_vector_decode decode_def split_def Let_def
        split: option.splits)

lemma decode_sequence_eq:
  "decode_sequence lib T (Some bs) =
     (if list_all (\<lambda>b. fst (ParseFromArray lib T b)) bs
      then Some (map (\<lambda>b. snd (ParseFromArray lib T b)) bs) else None)"
  by (simp only: decode_sequence_def option.case those_map_decode)

lemma decode_sequence_fails:
  assumes "k < length bs" and "decode lib T (Some (bs ! k)) = None"
  shows "decode_sequence lib T (Some bs) = None"
proof -
  have "\<not> fst (ParseFromArray lib T (bs ! k))"
    using assms(2) by (simp add: decode_Some split: if_splits)
  then have "\<not> list_all (\<lambda>b. fst (ParseFromArray lib T b)) bs"
    using assms(1) by (auto simp: list_all_length)
  then show ?thesis by (simp add: decode_sequence_eq)
qed

lemma pb_size: "pb_obj_to_binary lib x = E_binary bs \<Longrightarrow> length bs = ByteSize lib x"
  by (auto simp: pb_obj_to_binary_def SerializeToArray_def enif_alloc_binary_def
      enif_make_binary_def Let_def)

lemma pb_bytes:
  "length (Serialize lib x) = ByteSize lib x \<Longrightarrow>
     pb_obj_to_binary lib x = E_binary (Serialize lib x)"
  by (simp add: pb_obj_to_binary_def SerializeToArray_def enif_alloc_binary_def
      enif_make_binary_def Let_def)

lemma unat_succ: "unat (i :: 32 word) < n \<Longrightarrow> n < 2 ^ 32 \<Longrightarrow> unat (i + 1) = Suc (unat i)"
  by (simp add: unat_word_ariths)

lemma loop_sends:
  "length offers < 2 ^ 32 \<Longrightarrow> unat i \<le> length offers \<Longrightarrow>
     resourceOffers_loop lib p offers i out =
       Some (Inr (out @ map (\<lambda>offer. (p, E_tuple [E_atom ''resourceOffers'',
                                           pb_obj_to_binary lib offer]))
                          (drop (unat i) offers)))"
proof (induction "length offers - unat i" arbitrary: i out)
  case 0
  then have "unat i = length offers" by simp
  then show ?case
    by (subst resourceOffers_loop.simps) simp
next
  case (Suc n)
  then have lt: "unat i < length offers" by simp
  have step: "unat (i + 1) = Suc (unat i)"
    using lt Suc.prems(1) by (rule unat_succ)
  have "n = length offers - unat (i + 1)" using Suc.hyps(2) step by simp
  moreover have "unat (i + 1) \<le> length offers" using lt step by simp
  ultimately have IH:
    "\<And>out'. resourceOffers_loop lib p offers (i + 1) out' =
       Some (Inr (out' @ map (\<lambda>offer. (p, E_tuple [E_atom ''resourceOffers'',
                                           pb_obj_to_binary lib offer]))
                          (drop (unat (i + 1)) offers)))"
    using Suc.hyps(1) Suc.prems(1) by blast
  have d: "drop (unat i) offers = offers ! unat i # drop (Suc (unat i)) offers"
    using lt by (simp add: Cons_nth_drop_Suc)
  show ?case
    by (subst resourceOffers_loop.simps)
       (simp add: lt IH step d enif_make_tuple2_def enif_make_tuple_def enif_make_atom_def
          enif_send_def)
qed

lemma command_contract_None:
  "command_contract reply d s None = Inr (DRIVER_ABORTED, \<lparr>driver = Some d, scheduler = s\<rparr>)"
  by (simp add: command_contract_def)

lemma bind_to_None: "Option.bind x (\<lambda>_. None) = None"
  by (cases x) simp_all

subsection \<open>The commands\<close>

text \<open>
  C1. Each of the seven commands that take encoded arguments meets the uniform command
  contract: if one of its binary arguments fails to decode it returns the rejection
  status and leaves the driver untouched, no call made; if all decode it makes exactly
  one call into the driver, with the decoded arguments, and returns the status the
  driver reports. The arguments the source asserts to be non-null are given as \<open>Some\<close>;
  the filters argument is any pointer.
\<close>

theorem command_facade_contract:
  "scheduler_acceptOffers lib reply \<lparr>driver = Some d, scheduler = s\<rparr>
       (Some offerIds) (Some operations) filters =
     command_contract reply d s
       (Option.bind (decode_sequence lib OfferID (Some offerIds)) (\<lambda>offerIds_v.
        Option.bind (decode_sequence lib Offer_Operation (Some operations)) (\<lambda>operations_v.
        Option.bind (decode lib Filters filters) (\<lambda>filter_pb.
        Some (Driver_acceptOffers offerIds_v operations_v filter_pb)))))
   \<and> scheduler_declineOffer lib reply \<lparr>driver = Some d, scheduler = s\<rparr> (Some offerId) filters =
     command_contract reply d s
       (Option.bind (decode lib OfferID (Some offerId)) (\<lambda>offerid_pb.
        Option.bind (decode lib Filters filters) (\<lambda>filter_pb.
        Some (Driver_declineOffer offerid_pb filter_pb))))
   \<and> scheduler_killTask lib reply \<lparr>driver = Some d, scheduler = s\<rparr> (Some taskId) =
     command_contract reply d s (map_option Driver_killTask (decode lib TaskID (Some taskId)))
   \<and> scheduler_sendFrameworkMessage lib reply \<lparr>driver = Some d, scheduler = s\<rparr>
       (Some executorId) (Some slaveId) (Some data) =
     command_contract reply d s
       (Option.bind (decode lib ExecutorID (Some executorId)) (\<lambda>executorid_pb.
        Option.bind (decode lib SlaveID (Some slaveId)) (\<lambda>slaveid_pb.
        Some (Driver_sendFrameworkMessage executorid_pb slaveid_pb (std_string data)))))
   \<and> scheduler_requestResources lib reply \<lparr>driver = Some d, scheduler = s\<rparr> (Some requests) =
     command_contract reply d s
       (map_option Driver_requestResources (decode_sequence lib Request (Some requests)))
   \<and> scheduler_reconcileTasks lib reply \<lparr>driver = Some d, scheduler = s\<rparr> (Some taskStatus) =
     command_contract reply d s
       (map_option Driver_reconcileTasks (decode_sequence lib TaskStatus (Some taskStatus)))
   \<and> scheduler_launchTasks lib reply \<lparr>driver = Some d, scheduler = s\<rparr>
       (Some offerId) (Some taskInfos) filters =
     command_contract reply d s
       (Option.bind (decode lib OfferID (Some offerId)) (\<lambda>offerid_pb.
        Option.bind (decode_sequence lib TaskInfo (Some taskInfos)) (\<lambda>taskInfo_v.
        Option.bind (decode lib Filters filters) (\<lambda>filter_pb.
        Some (Driver_launchTasks offerid_pb taskInfo_v filter_pb)))))"
  by (simp only: acceptOffers_contract declineOffer_contract killTask_contract
        sendFrameworkMessage_contract requestResources_contract reconcileTasks_contract
        launchTasks_contract simp_thms)

text \<open>
  C2, as stated, fails: a command rejected for a malformed argument returns the very
  number the native driver reports when it has aborted.
\<close>

theorem rejected_command_returns_native_aborted:
  "decode sample_lib TaskID (Some []) = None
   \<and> scheduler_killTask sample_lib sample_reply sample_state (Some []) =
        Inr (Status_code Status_DRIVER_ABORTED, sample_state)"
  by (simp add: decode_Some killTask_contract command_contract_None sample_state_def
        sample_lib_def DRIVER_ABORTED_def)

text \<open>
  C2, amended: the rejection status is the native aborted status, and it differs from
  the native not-started, running and stopped statuses.
\<close>

theorem rejection_status_among_native_statuses:
  "DRIVER_ABORTED = Status_code Status_DRIVER_ABORTED
   \<and> DRIVER_ABORTED \<noteq> Status_code Status_DRIVER_NOT_STARTED
   \<and> DRIVER_ABORTED \<noteq> Status_code Status_DRIVER_RUNNING
   \<and> DRIVER_ABORTED \<noteq> Status_code Status_DRIVER_STOPPED"
  by (simp add: DRIVER_ABORTED_def)

text \<open>
  C4. In the four commands with a sequence argument, when the element at some position
  \<open>k\<close> of the sequence fails to decode, the command returns the rejection status and
  the driver is as before: no element of the sequence reaches it, whether it comes
  before or after position \<open>k\<close>.
\<close>

theorem sequence_decode_all_or_nothing:
  "(k < length bs \<and> decode lib OfferID (Some (bs ! k)) = None \<longrightarrow>
      scheduler_acceptOffers lib reply \<lparr>driver = Some d, scheduler = s\<rparr>
          (Some bs) (Some operations) filters =
        Inr (DRIVER_ABORTED, \<lparr>driver = Some d, scheduler = s\<rparr>))
   \<and> (k < length bs \<and> decode lib Offer_Operation (Some (bs ! k)) = None \<longrightarrow>
      scheduler_acceptOffers lib reply \<lparr>driver = Some d, scheduler = s\<rparr>
          (Some offerIds) (Some bs) filters =
        Inr (DRIVER_ABORTED, \<lparr>driver = Some d, scheduler = s\<rparr>))
   \<and> (k < length bs \<and> decode lib Request (Some (bs ! k)) = None \<longrightarrow>
      scheduler_requestResources lib reply \<lparr>driver = Some d, scheduler = s\<rparr> (Some bs) =
        Inr (DRIVER_ABORTED, \<lparr>driver = Some d, scheduler = s\<rparr>))
   \<and> (k < length bs \<and> decode lib TaskStatus (Some (bs ! k)) = None \<longrightarrow>
      scheduler_reconcileTasks lib reply \<lparr>driver = Some d, scheduler = s\<rparr> (Some bs) =
        Inr (DRIVER_ABORTED, \<lparr>driver = Some d, scheduler = s\<rparr>))
   \<and> (k < length bs \<and> decode lib TaskInfo (Some (bs ! k)) = None \<longrightarrow>
      scheduler_launchTasks lib reply \<lparr>driver = Some d, scheduler = s\<rparr>
          (Some offerId) (Some bs) filters =
        Inr (DRIVER_ABORTED, \<lparr>driver = Some d, scheduler = s\<rparr>))"
proof (intro conjI impI; elim conjE)
  assume "k < length bs" and "decode lib OfferID (Some (bs ! k)) = None"
  then have "decode_sequence lib OfferID (Some bs) = None"
    by (rule decode_sequence_fails)
  then show "scheduler_acceptOffers lib reply \<lparr>driver = Some d, scheduler = s\<rparr>
          (Some bs) (Some operations) filters =
        Inr (DRIVER_ABORTED, \<lparr>driver = Some d, scheduler = s\<rparr>)"
    by (simp add: acceptOffers_contract command_contract_None)
next
  assume "k < length bs" and "decode lib Offer_Operation (Some (bs ! k)) = None"
  then have "decode_sequence lib Offer_Operation (Some bs) = None"
    by (rule decode_sequence_fails)
  then show "scheduler_acceptOffers lib reply \<lparr>driver = Some d, scheduler = s\<rparr>
          (Some offerIds) (Some bs) filters =
        Inr (DRIVER_ABORTED, \<lparr>driver = Some d, scheduler = s\<rparr>)"
    by (simp add: acceptOffers_contract command_contract_None bind_to_None)
next
  assume "k < length bs" and "decode lib Request (Some (bs ! k)) = None"
  then have "decode_sequence lib Request (Some bs) = None"
    by (rule decode_sequence_fails)
  then show "scheduler_requestResources lib reply \<lparr>driver = Some d, scheduler = s\<rparr> (Some bs) =
        Inr (DRIVER_ABORTED, \<lparr>driver = Some d, scheduler = s\<rparr>)"
    by (simp add: requestResources_contract command_contract_None)
next
  assume "k < length bs" and "decode lib TaskStatus (Some (bs ! k)) = None"
  then have "decode_sequence lib TaskStatus (Some bs) = None"
    by (rule decode_sequence_fails)
  then show "scheduler_reconcileTasks lib reply \<lparr>driver = Some d, scheduler = s\<rparr> (Some bs) =
        Inr (DRIVER_ABORTED, \<lparr>driver = Some d, scheduler = s\<rparr>)"
    by (simp add: reconcileTasks_contract command_contract_None)
next
  assume "k < length bs" and "decode lib TaskInfo (Some (bs ! k)) = None"
  then have "decode_sequence lib TaskInfo (Some bs) = None"
    by (rule decode_sequence_fails)
  then show "scheduler_launchTasks lib reply \<lparr>driver = Some d, scheduler = s\<rparr>
          (Some offerId) (Some bs) filters =
        Inr (DRIVER_ABORTED, \<lparr>driver = Some d, scheduler = s\<rparr>)"
    by (simp add: launchTasks_contract command_contract_None bind_to_None)
qed

theorem sequence_decode_all_or_nothing_witness:
  "(1 < length [[10, 1], [7 :: byte]] \<and> decode sample_lib OfferID (Some ([[10, 1], [7]] ! 1)) = None)
   \<and> scheduler_acceptOffers sample_lib sample_reply sample_state
          (Some [[10, 1], [7]]) (Some [[10, 3]]) (Some [10]) = Inr (DRIVER_ABORTED, sample_state)
   \<and> decode sample_lib Offer_Operation (Some ([[10, 1], [7]] ! 1)) = None
   \<and> scheduler_acceptOffers sample_lib sample_reply sample_state
          (Some [[10, 3]]) (Some [[10, 1], [7]]) (Some [10]) = Inr (DRIVER_ABORTED, sample_state)
   \<and> decode sample_lib Request (Some ([[10, 1], [7]] ! 1)) = None
   \<and> scheduler_requestResources sample_lib sample_reply sample_state (Some [[10, 1], [7]]) =
        Inr (DRIVER_ABORTED, sample_state)
   \<and> decode sample_lib TaskStatus (Some ([[10, 1], [7]] ! 1)) = None
   \<and> scheduler_reconcileTasks sample_lib sample_reply sample_state (Some [[10, 1], [7]]) =
        Inr (DRIVER_ABORTED, sample_state)
   \<and> decode sample_lib TaskInfo (Some ([[10, 1], [7]] ! 1)) = None
   \<and> scheduler_launchTasks sample_lib sample_reply sample_state
          (Some [10, 5]) (Some [[10, 1], [7]]) (Some [10]) = Inr (DRIVER_ABORTED, sample_state)"
  using sequence_decode_all_or_nothing [of 1 "[[10, 1], [7]]" sample_lib sample_reply
          sample_driver "Some \<lparr>info = [1], pid = Some 7\<rparr>" "[[10, 3]]" "Some [10]" "[[10, 3]]"
          "[10, 5]"]
  by (simp add: sample_state_def decode_Some sample_lib_def)

text \<open>
  C8, as stated, fails: three bytes with a zero byte in the middle are supplied and the
  driver receives only the first.
\<close>

theorem sendFrameworkMessage_truncates_at_zero_byte:
  "scheduler_sendFrameworkMessage sample_lib sample_reply sample_state
       (Some [10, 1]) (Some [10, 2]) (Some [97, 0, 98]) =
     Inr (Status_code Status_DRIVER_RUNNING,
          \<lparr>driver = Some (sample_driver\<lparr>drv_calls :=
                      [Driver_sendFrameworkMessage [1] [2] [97]]\<rparr>),
           scheduler = Some \<lparr>info = [1], pid = Some 7\<rparr>\<rparr>)
   \<and> Driver_sendFrameworkMessage [1] [2] [97 :: byte] \<noteq>
       Driver_sendFrameworkMessage [1 :: byte] [2] [97, 0, 98]"
  by (simp add: sendFrameworkMessage_contract command_contract_def sample_state_def
        decode_Some sample_lib_def sample_reply_def sample_driver_def std_string_def)

text \<open>
  C8, amended: no decode step is applied to the data argument of
  \<^verbatim>\<open>sendFrameworkMessage\<close>; the driver receives the supplied bytes up to, and not
  including, the first zero byte, which is all of them when none is zero.
\<close>

theorem sendFrameworkMessage_passes_c_string:
  assumes "decode lib ExecutorID (Some executorId) = Some executorid_pb"
    and "decode lib SlaveID (Some slaveId) = Some slaveid_pb"
  shows "scheduler_sendFrameworkMessage lib reply \<lparr>driver = Some d, scheduler = s\<rparr>
           (Some executorId) (Some slaveId) (Some data) =
         Inr (Status_code (reply d (Driver_sendFrameworkMessage executorid_pb slaveid_pb
                                      (takeWhile (\<lambda>c. c \<noteq> 0) data))),
              \<lparr>driver = Some (d\<lparr>drv_calls := drv_calls d @
                          [Driver_sendFrameworkMessage executorid_pb slaveid_pb
                             (takeWhile (\<lambda>c. c \<noteq> 0) data)]\<rparr>),
               scheduler = s\<rparr>)
       \<and> (0 \<notin> set data \<longrightarrow> takeWhile (\<lambda>c. c \<noteq> 0) data = data)"
  using assms
  by (auto simp: sendFrameworkMessage_contract command_contract_def std_string_def
        takeWhile_eq_all_conv)

theorem sendFrameworkMessage_passes_c_string_witness:
  "decode sample_lib ExecutorID (Some [10, 1]) = Some [1]
   \<and> decode sample_lib SlaveID (Some [10, 2]) = Some [2]
   \<and> 0 \<notin> set [104, 105 :: byte]
   \<and> scheduler_sendFrameworkMessage sample_lib sample_reply sample_state
         (Some [10, 1]) (Some [10, 2]) (Some [104, 105]) =
       Inr (2, \<lparr>driver = Some (sample_driver\<lparr>drv_calls :=
                      [Driver_sendFrameworkMessage [1] [2] [104, 105]]\<rparr>),
                scheduler = Some \<lparr>info = [1], pid = Some 7\<rparr>\<rparr>)"
  using sendFrameworkMessage_passes_c_string [of sample_lib "[10, 1]" "[1]" "[10, 2]" "[2]"
          sample_reply sample_driver "Some \<lparr>info = [1], pid = Some 7\<rparr>" "[104, 105]"]
  by (simp add: decode_Some sample_lib_def sample_state_def sample_reply_def sample_driver_def)

text \<open>
  C10. A null binary makes \<open>deserialize\<close> return failure without looking at it, so a
  null filters argument of \<^verbatim>\<open>declineOffer\<close>, \<^verbatim>\<open>acceptOffers\<close> or \<^verbatim>\<open>launchTasks\<close> gives
  the rejection status and no call into the driver, whatever the other arguments are.
\<close>

theorem null_argument_rejected:
  "deserialize lib T ret None = (False, ret)
   \<and> scheduler_declineOffer lib reply \<lparr>driver = Some d, scheduler = s\<rparr> (Some offerId) None =
        Inr (DRIVER_ABORTED, \<lparr>driver = Some d, scheduler = s\<rparr>)
   \<and> scheduler_acceptOffers lib reply \<lparr>driver = Some d, scheduler = s\<rparr>
          (Some offerIds) (Some operations) None =
        Inr (DRIVER_ABORTED, \<lparr>driver = Some d, scheduler = s\<rparr>)
   \<and> scheduler_launchTasks lib reply \<lparr>driver = Some d, scheduler = s\<rparr>
          (Some offerId) (Some taskInfos) None =
        Inr (DRIVER_ABORTED, \<lparr>driver = Some d, scheduler = s\<rparr>)"
  by (simp add: deserialize_None acceptOffers_contract declineOffer_contract
        launchTasks_contract decode_None command_contract_None bind_to_None)

subsection \<open>The codec\<close>

text \<open>
  C3. Encoding a message and decoding the result gives the message back, and the
  encoded binary has \<^verbatim>\<open>ByteSize()\<close> bytes. The two hypotheses are the contract of the
  protobuf library for the message: its serialization has \<^verbatim>\<open>ByteSize()\<close> bytes and
  parses back to it.
\<close>

theorem codec_round_trip:
  assumes "length (Serialize lib x) = ByteSize lib x"
    and "ParseFromArray lib T (Serialize lib x) = (True, x)"
  shows "\<exists>bs. pb_obj_to_binary lib x = E_binary bs \<and> length bs = ByteSize lib x
           \<and> deserialize lib T ret (Some bs) = (True, x)"
  using assms by (simp add: pb_bytes deserialize_Some)

theorem codec_round_trip_witness:
  "length (Serialize sample_lib [1, 2]) = ByteSize sample_lib [1, 2]
   \<and> ParseFromArray sample_lib OfferID (Serialize sample_lib [1, 2]) = (True, [1, 2])
   \<and> (\<exists>bs. pb_obj_to_binary sample_lib [1, 2] = E_binary bs \<and> length bs = ByteSize sample_lib [1, 2]
           \<and> deserialize sample_lib OfferID [] (Some bs) = (True, [1, 2]))"
  using codec_round_trip [of sample_lib "[1, 2]" OfferID "[]"]
  by (simp add: sample_lib_def)

subsection \<open>Initialisation\<close>

text \<open>
  C9. \<^verbatim>\<open>scheduler_init\<close> returns a pair with both pointers set for every descriptor and
  every credential: the flag returned by \<open>deserialize\<close> is not looked at, and the
  scheduler and the driver are built from whatever the parser left in the message.
\<close>

theorem init_ignores_decode_result:
  "scheduler_init lib p (Some b) (Some m) credentialssupplied credentials =
     Inr \<lparr>driver = Some
            \<lparr>drv_scheduler = \<lparr>info = snd (ParseFromArray lib FrameworkInfo b), pid = p\<rparr>,
             drv_framework = snd (ParseFromArray lib FrameworkInfo b),
             drv_master = std_string m,
             drv_credential =
               (if credentialssupplied
                then Some (snd (deserialize lib Credential (New lib Credential) credentials))
                else None),
             drv_calls = []\<rparr>,
          scheduler = Some \<lparr>info = snd (ParseFromArray lib FrameworkInfo b), pid = p\<rparr>\<rparr>"
  by (simp add: scheduler_init_def deserialize_Some Let_def)

text \<open>A descriptor that does not parse, in the sample serializer.\<close>

lemma init_on_malformed_descriptor:
  "fst (deserialize sample_lib FrameworkInfo (New sample_lib FrameworkInfo) (Some [7, 7])) = False
   \<and> scheduler_init sample_lib (Some 7) (Some [7, 7]) (Some [109]) False None =
     Inr \<lparr>driver = Some
            \<lparr>drv_scheduler = \<lparr>info = [7], pid = Some 7\<rparr>, drv_framework = [7],
             drv_master = [109], drv_credential = None, drv_calls = []\<rparr>,
          scheduler = Some \<lparr>info = [7], pid = Some 7\<rparr>\<rparr>"
  by (simp add: scheduler_init_def deserialize_Some Let_def sample_lib_def std_string_def)

subsection \<open>The callbacks\<close>

text \<open>
  C5. Called with fewer than \<open>2 ^ 32\<close> offers, \<^verbatim>\<open>resourceOffers\<close> returns, and it has
  sent one message per offer, in the order of the offers, each a pair of the atom
  \<^verbatim>\<open>resourceOffers\<close> and the one encoded offer; nothing is sent for an empty list.
\<close>

theorem resourceOffers_fan_out:
  "length offers < 2 ^ 32 \<Longrightarrow>
     CScheduler_resourceOffers lib \<lparr>info = x, pid = Some p\<rparr> offers out =
       Some (Inr (out @ map (\<lambda>offer. (p, E_tuple [E_atom ''resourceOffers'',
                                           pb_obj_to_binary lib offer])) offers))"
  by (simp add: CScheduler_resourceOffers_def loop_sends)

theorem resourceOffers_fan_out_witness:
  "length [[1], [2 :: byte]] < 2 ^ 32
   \<and> CScheduler_resourceOffers sample_lib \<lparr>info = [], pid = Some 7\<rparr> [[1], [2]] [] =
       Some (Inr [(7, E_tuple [E_atom ''resourceOffers'', E_binary [10, 1]]),
                  (7, E_tuple [E_atom ''resourceOffers'', E_binary [10, 2]])])"
  using resourceOffers_fan_out [of "[[1], [2]]" sample_lib "[]" 7 "[]"]
  by (simp add: pb_bytes sample_lib_def)

text \<open>Eight of the nine other callbacks send exactly one message, tagged with the name
  of the event and carrying the payload of the event.\<close>

lemma callbacks_send_one_tagged_message:
  "CScheduler_registered lib \<lparr>info = x, pid = Some p\<rparr> frameworkId masterInfo out =
     Inr (out @ [(p, E_tuple [E_atom ''registered'', pb_obj_to_binary lib frameworkId,
                             pb_obj_to_binary lib masterInfo])])"
  "CScheduler_reregistered lib \<lparr>info = x, pid = Some p\<rparr> masterInfo out =
     Inr (out @ [(p, E_tuple [E_atom ''reregistered'', pb_obj_to_binary lib masterInfo])])"
  "CScheduler_offerRescinded lib \<lparr>info = x, pid = Some p\<rparr> offerId out =
     Inr (out @ [(p, E_tuple [E_atom ''offerRescinded'', pb_obj_to_binary lib offerId])])"
  "CScheduler_statusUpdate lib \<lparr>info = x, pid = Some p\<rparr> status out =
     Inr (out @ [(p, E_tuple [E_atom ''statusUpdate'', pb_obj_to_binary lib status])])"
  "CScheduler_frameworkMessage lib \<lparr>info = x, pid = Some p\<rparr> executorId slaveId data out =
     Inr (out @ [(p, E_tuple [E_atom ''frameworkMessage'', pb_obj_to_binary lib executorId,
                             pb_obj_to_binary lib slaveId,
                             E_string (takeWhile (\<lambda>c. c \<noteq> 0) data)])])"
  "CScheduler_slaveLost lib \<lparr>info = x, pid = Some p\<rparr> slaveId out =
     Inr (out @ [(p, E_tuple [E_atom ''slaveLost'', pb_obj_to_binary lib slaveId])])"
  "CScheduler_executorLost lib \<lparr>info = x, pid = Some p\<rparr> executorId slaveId exit_status out =
     Inr (out @ [(p, E_tuple [E_atom ''executorLost'', pb_obj_to_binary lib executorId,
                             pb_obj_to_binary lib slaveId, E_int (sint exit_status)])])"
  "CScheduler_error \<lparr>info = x, pid = Some p\<rparr> errormessage out =
     Inr (out @ [(p, E_tuple [E_atom ''error'',
                             E_string (takeWhile (\<lambda>c. c \<noteq> 0) errormessage)])])"
  by (simp_all add: CScheduler_registered_def CScheduler_reregistered_def
        CScheduler_offerRescinded_def CScheduler_statusUpdate_def CScheduler_frameworkMessage_def
        CScheduler_slaveLost_def CScheduler_executorLost_def CScheduler_error_def
        enif_make_tuple2_def enif_make_tuple3_def enif_make_tuple4_def enif_make_tuple_def
        enif_make_atom_def enif_make_string_def enif_make_int_def c_str_def enif_send_def)

text \<open>With a send that succeeds the callback over the mailbox is the callback over the
  trace of sends.\<close>

lemma statusUpdate_result_sent:
  "CScheduler_statusUpdate_result True lib this status out =
     CScheduler_statusUpdate lib this status out"
  by (simp add: CScheduler_statusUpdate_result_def CScheduler_statusUpdate_def
        enif_send_result_def enif_send_def split: option.splits sum.splits)



text \<open>
  C7 fails for \<^verbatim>\<open>disconnected\<close>: the callback never sends the one-element tuple
  tagged \<^verbatim>\<open>disconnected\<close>. If the atom's handle converts to the count 0 the empty
  tuple is sent; otherwise the call reads elements that were not passed.
\<close>

theorem disconnected_sends_no_tagged_message:
  "CScheduler_disconnected handle \<lparr>info = x, pid = Some p\<rparr> out =
     (if handle (E_atom ''disconnected'') = 0 then Inr (out @ [(p, E_tuple [])])
      else Inl UndefinedBehaviour)
   \<and> CScheduler_disconnected handle \<lparr>info = x, pid = Some p\<rparr> out \<noteq>
       Inr (out @ [(p, E_tuple [E_atom ''disconnected''])])"
  by (simp add: CScheduler_disconnected_def enif_make_tuple_def enif_make_atom_def enif_send_def)

end
